theory Spec2Isabelle
  imports Main
begin

section \<open>Data model of \<open>App.tsx\<close>\<close>

text \<open>
  The response types of the source. \<open>edges\<close> is declared \<open>any[]\<close>, so the element
  type is a parameter. A TypeScript \<open>number\<close> that counts repositories is an integer here.
\<close>

record PageInfo =
  endCursor :: string
  hasNextPage :: bool

record 'e Repositories =
  totalCount :: int
  pageInfo :: PageInfo
  edges :: "'e list"

record GError =
  type :: string
  message :: string

record 'e GQResponse =
  name :: string
  url :: string
  repositories :: "'e Repositories"

text \<open>
  \<open>State\<close> and \<open>Action\<close> are unions tagged by \<open>status\<close> and \<open>type\<close>: one constructor
  per tag, in the order of the source. The payload of \<open>Success\<close>, \<open>Init\<close> and \<open>More\<close> is
  the field \<open>data\<close>, the payload of \<open>Error\<close> and \<open>ErrorAction\<close> is the field \<open>error\<close>.
\<close>

datatype 'e State =
    Empty
  | Loading
  | Error string
  | Success "'e GQResponse"

datatype 'e Action =
    Request
  | Init "'e GQResponse"
  | More "'e GQResponse"
  | ErrorAction string

section \<open>The reducer\<close>

text \<open>
  Ramda's \<open>R.concat\<close> on two arrays is the first followed by the second.
  \<open>edgeLens\<close> is \<open>R.lensPath(['data', 'repositories', 'edges'])\<close>. Its first step
  \<open>data\<close> is the payload of the constructor; the remaining two steps are the functions
  below: \<open>R.view\<close> reads the focus, \<open>R.over\<close> rebuilds the object with the function
  applied to the focus and every other field kept.
\<close>

definition R_concat :: "'a list \<Rightarrow> 'a list \<Rightarrow> 'a list" where
  "R_concat xs ys = xs @ ys"

definition view_edgeLens :: "'e GQResponse \<Rightarrow> 'e list" where
  "view_edgeLens d = edges (repositories d)"

definition over_edgeLens :: "('e list \<Rightarrow> 'e list) \<Rightarrow> 'e GQResponse \<Rightarrow> 'e GQResponse" where
  "over_edgeLens f d =
     d\<lparr>repositories := (repositories d)\<lparr>edges := f (edges (repositories d))\<rparr>\<rparr>"

fun reducer :: "'e State \<Rightarrow> 'e Action \<Rightarrow> 'e State" where
  "reducer state Request = Loading"
| "reducer state (Init d) = Success d"
| "reducer state (More d) =
     (case state of
        Success sd \<Rightarrow>
          (let oldRepos = view_edgeLens sd;
               data = over_edgeLens (R_concat oldRepos) d
           in Success data)
      | _ \<Rightarrow> state)"
| "reducer state (ErrorAction e) = Error e"

definition is_success :: "'e State \<Rightarrow> bool" where
  "is_success state = (case state of Success _ \<Rightarrow> True | _ \<Rightarrow> False)"

section \<open>Query orchestration\<close>

text \<open>
  The variables \<open>{ organization, limit, cursor }\<close> of the GraphQL request. The query
  text \<open>GET_REPOSITORIES\<close> is a constant, so a request is its variables. \<open>cursor\<close> is
  an optional argument: \<open>None\<close> is \<open>undefined\<close>.
\<close>

record Variables =
  organizationVar :: string
  limitVar :: int
  cursorVar :: "string option"

text \<open>
  The body of a response is destructured into \<open>data\<close> and \<open>errors\<close>; either may be
  absent. \<open>data\<close>, when present, stands for the object read as \<open>data.organization\<close>.
  The call either rejects, with an error object whose \<open>stack\<close> property the handler
  reads, or resolves with a body.
\<close>

record 'e Body =
  data :: "'e GQResponse option"
  errors :: "GError list option"

datatype 'e Outcome =
    Rejected string
  | Resolved "'e Body"

text \<open>
  What the JavaScript engine decides: the \<open>stack\<close> property of the \<open>Error(message)\<close>
  thrown for a response with \<open>errors\<close>, as a function of the message, and the \<open>stack\<close>
  property of the \<open>TypeError\<close> raised by reading \<open>data.organization\<close> of an absent
  \<open>data\<close>. Neither is fixed by the source, so both are parameters.
\<close>

record Runtime =
  errorStack :: "string \<Rightarrow> string"
  typeErrorStack :: string

text \<open>
  The effects of the orchestration, in the order they happen: a request handed to the
  transport, an action handed to \<open>dispatch\<close>.
\<close>

datatype 'e Effect =
    Post Variables
  | Dispatch "'e Action"

text \<open>\<open>Array.prototype.join\<close> on strings.\<close>

fun join :: "string \<Rightarrow> string list \<Rightarrow> string" where
  "join sep [] = []"
| "join sep [x] = x"
| "join sep (x # y # ys) = x @ sep @ join sep (y # ys)"

text \<open>JavaScript truthiness of an optional string: \<open>undefined\<close> and \<open>''\<close> are falsy.\<close>

definition truthy :: "string option \<Rightarrow> bool" where
  "truthy c = (case c of None \<Rightarrow> False | Some s \<Rightarrow> s \<noteq> [])"

definition getReposOfOrganization ::
    "(Variables \<Rightarrow> 'e Outcome) \<Rightarrow> string \<Rightarrow> int \<Rightarrow> string option \<Rightarrow> 'e Effect \<times> 'e Outcome" where
  "getReposOfOrganization post organization limit cursor =
     (let variables = \<lparr>organizationVar = organization, limitVar = limit, cursorVar = cursor\<rparr>
      in (Post variables, post variables))"

text \<open>
  The \<open>try\<close> block of \<open>onFetchRepos\<close> after the \<open>await\<close>: \<open>Inl\<close> is a thrown error,
  as the \<open>stack\<close> the handler will read; \<open>Inr\<close> is the action dispatched. An \<open>errors\<close>
  array, also an empty one, is truthy.
\<close>

definition tryBlock :: "Runtime \<Rightarrow> 'e Outcome \<Rightarrow> string option \<Rightarrow> string + 'e Action" where
  "tryBlock rt outcome cursor =
     (case outcome of
        Rejected stack \<Rightarrow> Inl stack
      | Resolved body \<Rightarrow>
          (case errors body of
             Some errs \<Rightarrow>
               (let msg = join '', '' (map (\<lambda>error. ''['' @ type error @ ''] '' @ message error) errs)
                in Inl (errorStack rt msg))
           | None \<Rightarrow>
               (case data body of
                  None \<Rightarrow> Inl (typeErrorStack rt)
                | Some org \<Rightarrow>
                    if \<not> truthy cursor then Inr (Init org) else Inr (More org))))"

definition onFetchRepos ::
    "Runtime \<Rightarrow> (Variables \<Rightarrow> 'e Outcome) \<Rightarrow> string \<Rightarrow> int \<Rightarrow> string option \<Rightarrow> 'e Effect list" where
  "onFetchRepos rt post search limit cursor =
     (let (call, outcome) = getReposOfOrganization post search limit cursor
      in call #
         (case tryBlock rt outcome cursor of
            Inr action \<Rightarrow> [Dispatch action]
          | Inl stack \<Rightarrow> [Dispatch (ErrorAction stack)]))"

definition onFetchMoreRepos ::
    "Runtime \<Rightarrow> (Variables \<Rightarrow> 'e Outcome) \<Rightarrow> 'e State \<Rightarrow> string \<Rightarrow> 'e Effect list" where
  "onFetchMoreRepos rt post state query =
     (case state of
        Success d \<Rightarrow>
          (let cursor = endCursor (pageInfo (repositories d))
           in onFetchRepos rt post query 4 (Some cursor))
      | _ \<Rightarrow> [])"

text \<open>
  \<open>dispatch\<close> of \<open>useReducer\<close> replaces the state by \<open>reducer state action\<close>; a request
  leaves it alone.
\<close>

fun perform :: "'e State \<Rightarrow> 'e Effect \<Rightarrow> 'e State" where
  "perform state (Post v) = state"
| "perform state (Dispatch action) = reducer state action"

definition runEffects :: "'e State \<Rightarrow> 'e Effect list \<Rightarrow> 'e State" where
  "runEffects state effects = foldl perform state effects"

section \<open>Predicates and sample values for the properties\<close>

text \<open>
  The bound of the data model: a \<open>Success\<close> state holds no more edges than its
  \<open>totalCount\<close>. The other states hold no edges.
\<close>

definition withinTotal :: "'e State \<Rightarrow> bool" where
  "withinTotal state =
     (case state of
        Success d \<Rightarrow> int (length (edges (repositories d))) \<le> totalCount (repositories d)
      | _ \<Rightarrow> True)"

text \<open>
  An action agrees with the totals when the edges the reducer will hold after it are
  no more than the \<open>totalCount\<close> the action reports: a first page by itself, a next page
  together with the edges already held.
\<close>

fun agrees :: "'e State \<Rightarrow> 'e Action \<Rightarrow> bool" where
  "agrees state (Init d) =
     (int (length (edges (repositories d))) \<le> totalCount (repositories d))"
| "agrees state (More d) =
     (case state of
        Success sd \<Rightarrow>
          int (length (edges (repositories sd)) + length (edges (repositories d)))
            \<le> totalCount (repositories d)
      | _ \<Rightarrow> True)"
| "agrees state Request = True"
| "agrees state (ErrorAction e) = True"

fun agreeingRun :: "'e State \<Rightarrow> 'e Action list \<Rightarrow> bool" where
  "agreeingRun state [] = True"
| "agreeingRun state (a # as) = (agrees state a \<and> agreeingRun (reducer state a) as)"

text \<open>
  A runtime in the style of V8, where the \<open>stack\<close> of an error is the header
  \<open>name: message\<close> (the name alone for an empty message) followed by the frames of
  the call site.
\<close>

definition v8Stack :: "string \<Rightarrow> string \<Rightarrow> string \<Rightarrow> string" where
  "v8Stack errName msg frames = (if msg = [] then errName else errName @ '': '' @ msg) @ frames"

definition v8 :: Runtime where
  "v8 = \<lparr>errorStack = (\<lambda>msg. v8Stack ''Error'' msg (CHR 0x0A # ''    at onFetchRepos (App.tsx:135:15)'')),
          typeErrorStack =
            v8Stack ''TypeError'' ''Cannot read property 'organization' of undefined''
              (CHR 0x0A # ''    at onFetchRepos (App.tsx:139:45)'')\<rparr>"

text \<open>Sample pages of an organization, with the edges as numbers.\<close>

definition samplePage :: "int \<Rightarrow> string \<Rightarrow> bool \<Rightarrow> nat list \<Rightarrow> nat GQResponse" where
  "samplePage n cur nxt es =
     \<lparr>name = ''octocat'', url = ''https://github.com/octocat'',
      repositories = \<lparr>totalCount = n,
                      pageInfo = \<lparr>endCursor = cur, hasNextPage = nxt\<rparr>,
                      edges = es\<rparr>\<rparr>"

definition notFound :: "GError list" where
  "notFound = [\<lparr>type = ''NOT_FOUND'', message = ''Could not resolve...''\<rparr>]"

section \<open>Properties of the reducer\<close>

text \<open>
  C7: from every prior state, the action \<open>request\<close> leads to \<open>Loading\<close>, which has no
  payload: whatever error or data the prior state held is gone.
\<close>

theorem reducer_request_loading:
  "reducer state Request = Loading"
  by simp

text \<open>
  C1: from \<open>Success\<close> with data \<open>r1\<close>, the action \<open>more\<close> with data \<open>r2\<close> leads to
  \<open>Success\<close> whose edges are those of \<open>r1\<close> followed by those of \<open>r2\<close>, and whose
  \<open>name\<close>, \<open>url\<close>, \<open>totalCount\<close>, \<open>endCursor\<close> and \<open>hasNextPage\<close> are those of \<open>r2\<close>.
\<close>

theorem reducer_more_success:
  "reducer (Success r1) (More r2) =
     Success \<lparr>name = name r2, url = url r2,
              repositories =
                \<lparr>totalCount = totalCount (repositories r2),
                 pageInfo = \<lparr>endCursor = endCursor (pageInfo (repositories r2)),
                             hasNextPage = hasNextPage (pageInfo (repositories r2))\<rparr>,
                 edges = edges (repositories r1) @ edges (repositories r2)\<rparr>\<rparr>"
  by (simp add: view_edgeLens_def over_edgeLens_def R_concat_def)

text \<open>
  C2: the merge done by the reducer (\<open>R.concat(oldRepos)\<close> applied to the edges of the
  action, lines 100-101) is concatenation. For every pair of edge sequences \<open>xs\<close>, held
  by the \<open>Success\<close> state, and \<open>ys\<close>, carried by the action \<open>more\<close>, the state after the
  action holds exactly \<open>xs\<close> followed by \<open>ys\<close>: nothing is removed and nothing is moved.
  In particular merging \<open>[]\<close> with \<open>[a, b]\<close> gives \<open>[a, b]\<close>, \<open>[a, b]\<close> with \<open>[c]\<close> gives
  \<open>[a, b, c]\<close>, and \<open>[a, b]\<close> with \<open>[a, b]\<close> gives \<open>[a, b, a, b]\<close>, duplicates kept.
\<close>

theorem merge_is_concatenation:
  "reducer
     (Success \<lparr>name = n1, url = u1,
               repositories = \<lparr>totalCount = t1, pageInfo = p1, edges = xs\<rparr>\<rparr>)
     (More \<lparr>name = n2, url = u2,
            repositories = \<lparr>totalCount = t2, pageInfo = p2, edges = ys\<rparr>\<rparr>)
   = Success \<lparr>name = n2, url = u2,
              repositories = \<lparr>totalCount = t2, pageInfo = p2, edges = xs @ ys\<rparr>\<rparr>
   \<and> reducer
     (Success \<lparr>name = n1, url = u1,
               repositories = \<lparr>totalCount = t1, pageInfo = p1, edges = []\<rparr>\<rparr>)
     (More \<lparr>name = n2, url = u2,
            repositories = \<lparr>totalCount = t2, pageInfo = p2, edges = [a, b]\<rparr>\<rparr>)
   = Success \<lparr>name = n2, url = u2,
              repositories = \<lparr>totalCount = t2, pageInfo = p2, edges = [a, b]\<rparr>\<rparr>
   \<and> reducer
     (Success \<lparr>name = n1, url = u1,
               repositories = \<lparr>totalCount = t1, pageInfo = p1, edges = [a, b]\<rparr>\<rparr>)
     (More \<lparr>name = n2, url = u2,
            repositories = \<lparr>totalCount = t2, pageInfo = p2, edges = [c]\<rparr>\<rparr>)
   = Success \<lparr>name = n2, url = u2,
              repositories = \<lparr>totalCount = t2, pageInfo = p2, edges = [a, b, c]\<rparr>\<rparr>
   \<and> reducer
     (Success \<lparr>name = n1, url = u1,
               repositories = \<lparr>totalCount = t1, pageInfo = p1, edges = [a, b]\<rparr>\<rparr>)
     (More \<lparr>name = n2, url = u2,
            repositories = \<lparr>totalCount = t2, pageInfo = p2, edges = [a, b]\<rparr>\<rparr>)
   = Success \<lparr>name = n2, url = u2,
              repositories = \<lparr>totalCount = t2, pageInfo = p2, edges = [a, b, a, b]\<rparr>\<rparr>"
  by (simp add: view_edgeLens_def over_edgeLens_def R_concat_def)

text \<open>
  C3: in a state that is not \<open>Success\<close> (\<open>Empty\<close>, \<open>Loading\<close> or \<open>Error\<close>), the action
  \<open>more\<close> returns the state as it is. The reducer is a total function of its typed
  arguments: no branch of it throws.
\<close>

theorem reducer_more_not_success:
  "\<not> is_success state \<Longrightarrow> reducer state (More d) = state"
  by (cases state) (simp_all add: is_success_def)

theorem reducer_more_not_success_witness:
  "\<not> is_success (Error ''late'' :: nat State)
   \<and> reducer (Error ''late'') (More (samplePage 5 ''c1'' True [1])) = Error ''late''
   \<and> reducer Empty (More (samplePage 5 ''c1'' True [1])) = Empty
   \<and> reducer Loading (More (samplePage 5 ''c1'' True [1])) = Loading"
  using reducer_more_not_success [of "Error ''late''" "samplePage 5 ''c1'' True [1]"]
    reducer_more_not_success [of Empty "samplePage 5 ''c1'' True [1]"]
    reducer_more_not_success [of Loading "samplePage 5 ''c1'' True [1]"]
  by (simp add: is_success_def)

section \<open>The bound on the number of edges\<close>

lemma withinTotal_step:
  "withinTotal state \<Longrightarrow> agrees state a \<Longrightarrow> withinTotal (reducer state a)"
  by (cases a; cases state)
     (simp_all add: withinTotal_def view_edgeLens_def over_edgeLens_def R_concat_def)

lemma withinTotal_run:
  "withinTotal state \<Longrightarrow> agreeingRun state as \<Longrightarrow> withinTotal (foldl reducer state as)"
proof (induction as arbitrary: state)
  case Nil
  then show ?case by simp
next
  case (Cons a as)
  from Cons.prems have "withinTotal (reducer state a)" and "agreeingRun (reducer state a) as"
    by (simp_all add: withinTotal_step)
  then have "withinTotal (foldl reducer (reducer state a) as)"
    by (rule Cons.IH)
  then show ?case by simp
qed

text \<open>
  C8, as stated, fails: the reducer checks no count. A first page of two edges out of
  three, followed by a next page of one edge that reports a total of two (a repository
  was removed in between), leaves three edges and \<open>totalCount = 2\<close>.
\<close>

theorem withinTotal_counterexample:
  "\<not> withinTotal (foldl reducer Empty
        [Init (samplePage 3 ''c1'' True [1, 2]), More (samplePage 2 ''c2'' False [3])])"
  by (simp add: withinTotal_def samplePage_def view_edgeLens_def over_edgeLens_def R_concat_def)

text \<open>
  C8, amended: in every state reached from \<open>Empty\<close> by actions that agree with the
  totals (a first page has no more edges than its \<open>totalCount\<close>; a next page arriving
  in \<open>Success\<close> has, together with the edges already held, no more edges than its
  \<open>totalCount\<close>), a \<open>Success\<close> state holds no more edges than its \<open>totalCount\<close>.
\<close>

theorem withinTotal_reachable:
  "agreeingRun Empty as \<Longrightarrow> withinTotal (foldl reducer Empty as)"
  by (rule withinTotal_run) (simp_all add: withinTotal_def)

theorem withinTotal_reachable_witness:
  "agreeingRun Empty
     [Request, Init (samplePage 3 ''c1'' True [1, 2]), More (samplePage 3 ''c2'' False [3])]
   \<and> withinTotal (foldl reducer Empty
     [Request, Init (samplePage 3 ''c1'' True [1, 2]), More (samplePage 3 ''c2'' False [3])])
   \<and> foldl reducer Empty
     [Request, Init (samplePage 3 ''c1'' True [1, 2]), More (samplePage 3 ''c2'' False [3])]
     = Success (samplePage 3 ''c2'' False [1, 2, 3])"
proof -
  have run: "agreeingRun Empty
     [Request, Init (samplePage 3 ''c1'' True [1, 2]), More (samplePage 3 ''c2'' False [3])]"
    by (simp add: samplePage_def view_edgeLens_def over_edgeLens_def R_concat_def)
  have final: "foldl reducer Empty
     [Request, Init (samplePage 3 ''c1'' True [1, 2]), More (samplePage 3 ''c2'' False [3])]
     = Success (samplePage 3 ''c2'' False [1, 2, 3])"
    by (simp add: samplePage_def view_edgeLens_def over_edgeLens_def R_concat_def)
  from run final withinTotal_reachable [OF run] show ?thesis by simp
qed

section \<open>Properties of the query orchestration\<close>

lemma onFetchRepos_effects:
  "onFetchRepos rt post search lim cur =
     [Post \<lparr>organizationVar = search, limitVar = lim, cursorVar = cur\<rparr>,
      Dispatch (case tryBlock rt (post \<lparr>organizationVar = search, limitVar = lim, cursorVar = cur\<rparr>) cur of
                  Inr action \<Rightarrow> action
                | Inl stack \<Rightarrow> ErrorAction stack)]"
  by (simp add: onFetchRepos_def getReposOfOrganization_def Let_def split: sum.split)

lemma tryBlock_not_request:
  "tryBlock rt outcome cur \<noteq> Inr Request"
  by (simp add: tryBlock_def Let_def split: Outcome.split option.split)

text \<open>
  C4, as stated, fails: the handler dispatches \<open>error.stack\<close>, not the message. For the
  response \<open>{errors: [{type: "NOT_FOUND", message: "Could not resolve..."}]}\<close> on a
  runtime in the style of V8, the state is not \<open>Error "[NOT_FOUND] Could not resolve..."\<close>.
\<close>

theorem onFetchRepos_errors_counterexample:
  "runEffects (Empty :: nat State)
     (onFetchRepos v8 (\<lambda>_. Resolved \<lparr>data = None, errors = Some notFound\<rparr>) ''octocat'' 4 None)
   \<noteq> Error ''[NOT_FOUND] Could not resolve...''"
  by (simp add: onFetchRepos_effects tryBlock_def runEffects_def notFound_def v8_def v8Stack_def)

text \<open>
  C4, amended: whenever the response carries an \<open>errors\<close> array, with or without
  \<open>data\<close>, the orchestration drops the data and dispatches one \<open>error\<close> action, which
  leads to the \<open>Error\<close> state whose string is the \<open>stack\<close> property of the \<open>Error\<close>
  constructed from the message: the entries formatted as \<open>[type] message\<close> and joined
  with a comma and a space.
\<close>

theorem onFetchRepos_errors:
  "post \<lparr>organizationVar = search, limitVar = lim, cursorVar = cur\<rparr>
     = Resolved \<lparr>data = d, errors = Some errs\<rparr> \<Longrightarrow>
   onFetchRepos rt post search lim cur =
     [Post \<lparr>organizationVar = search, limitVar = lim, cursorVar = cur\<rparr>,
      Dispatch (ErrorAction (errorStack rt
        (join '', '' (map (\<lambda>e. ''['' @ type e @ ''] '' @ message e) errs))))]
   \<and> runEffects state (onFetchRepos rt post search lim cur) =
       Error (errorStack rt (join '', '' (map (\<lambda>e. ''['' @ type e @ ''] '' @ message e) errs)))"
  by (simp add: onFetchRepos_effects tryBlock_def runEffects_def)

theorem onFetchRepos_errors_witness:
  "runEffects Empty
     (onFetchRepos v8
        (\<lambda>_. Resolved \<lparr>data = Some (samplePage 5 ''c1'' True [1]), errors = Some notFound\<rparr>)
        ''octocat'' 4 None)
   = Error (''Error: [NOT_FOUND] Could not resolve...'' @
            CHR 0x0A # ''    at onFetchRepos (App.tsx:135:15)'')"
proof -
  have stack: "errorStack v8 (join '', '' (map (\<lambda>e. ''['' @ type e @ ''] '' @ message e) notFound))
      = ''Error: [NOT_FOUND] Could not resolve...'' @
        CHR 0x0A # ''    at onFetchRepos (App.tsx:135:15)''"
    by (simp add: notFound_def v8_def v8Stack_def)
  from onFetchRepos_errors
    [of "\<lambda>_. Resolved \<lparr>data = Some (samplePage 5 ''c1'' True [1]), errors = Some notFound\<rparr>"
        "''octocat''" 4 None "Some (samplePage 5 ''c1'' True [1])" notFound v8 Empty]
  show ?thesis
    unfolding stack by (simp add: runEffects_def)
qed

text \<open>
  C5: every call of \<open>onFetchRepos\<close> hands one request to the transport and then
  dispatches exactly one action, which is never \<open>request\<close>: no path of the function
  dispatches it, neither before the call nor after. A first-page call that succeeds
  goes from \<open>Empty\<close> to \<open>Success\<close> with \<open>init\<close> as its only action.
\<close>

theorem onFetchRepos_never_request:
  "(\<exists>a. onFetchRepos rt post search lim cur =
          [Post \<lparr>organizationVar = search, limitVar = lim, cursorVar = cur\<rparr>, Dispatch a]
        \<and> a \<noteq> Request)
   \<and> onFetchRepos v8
        (\<lambda>_. Resolved \<lparr>data = Some (samplePage 5 ''c1'' True [1]), errors = None\<rparr>)
        ''octocat'' 4 None
      = [Post \<lparr>organizationVar = ''octocat'', limitVar = 4, cursorVar = None\<rparr>,
         Dispatch (Init (samplePage 5 ''c1'' True [1]))]"
proof
  show "\<exists>a. onFetchRepos rt post search lim cur =
          [Post \<lparr>organizationVar = search, limitVar = lim, cursorVar = cur\<rparr>, Dispatch a]
        \<and> a \<noteq> Request"
    using tryBlock_not_request
      [of rt "post \<lparr>organizationVar = search, limitVar = lim, cursorVar = cur\<rparr>" cur]
    by (auto simp add: onFetchRepos_effects split: sum.split)
next
  show "onFetchRepos v8
        (\<lambda>_. Resolved \<lparr>data = Some (samplePage 5 ''c1'' True [1]), errors = None\<rparr>)
        ''octocat'' 4 None
      = [Post \<lparr>organizationVar = ''octocat'', limitVar = 4, cursorVar = None\<rparr>,
         Dispatch (Init (samplePage 5 ''c1'' True [1]))]"
    by (simp add: onFetchRepos_effects tryBlock_def truthy_def)
qed

text \<open>
  C6, as stated, fails: a cursor that is supplied but empty is falsy, and the test is
  \<open>!cursor\<close>. A successful call with the empty string as cursor does not dispatch
  \<open>more\<close>.
\<close>

theorem onFetchRepos_cursor_counterexample:
  "onFetchRepos v8
     (\<lambda>_. Resolved \<lparr>data = Some (samplePage 5 ''c1'' True [1]), errors = None\<rparr>)
     ''octocat'' 4 (Some '''')
   \<noteq> [Post \<lparr>organizationVar = ''octocat'', limitVar = 4, cursorVar = Some ''''\<rparr>,
       Dispatch (More (samplePage 5 ''c1'' True [1]))]"
  by (simp add: onFetchRepos_effects tryBlock_def truthy_def)

text \<open>
  C6, amended: on a successful response (no \<open>errors\<close>, \<open>data\<close> present), the action
  dispatched is \<open>init\<close> when the cursor is absent or the empty string and \<open>more\<close> when
  the cursor is a non-empty string, with \<open>data.organization\<close> as its data. The choice
  depends on the cursor alone: not on the organization searched, the limit, the
  runtime or the state.
\<close>

theorem onFetchRepos_success:
  "post \<lparr>organizationVar = search, limitVar = lim, cursorVar = cur\<rparr>
     = Resolved \<lparr>data = Some org, errors = None\<rparr> \<Longrightarrow>
   onFetchRepos rt post search lim cur =
     [Post \<lparr>organizationVar = search, limitVar = lim, cursorVar = cur\<rparr>,
      Dispatch (if cur = None \<or> cur = Some [] then Init org else More org)]"
  by (cases cur) (simp_all add: onFetchRepos_effects tryBlock_def truthy_def)

theorem onFetchRepos_success_witness:
  "onFetchRepos v8
     (\<lambda>_. Resolved \<lparr>data = Some (samplePage 5 ''c1'' True [1]), errors = None\<rparr>)
     ''octocat'' 4 None
   = [Post \<lparr>organizationVar = ''octocat'', limitVar = 4, cursorVar = None\<rparr>,
      Dispatch (Init (samplePage 5 ''c1'' True [1]))]
   \<and> onFetchRepos v8
     (\<lambda>_. Resolved \<lparr>data = Some (samplePage 5 ''c2'' False [2]), errors = None\<rparr>)
     ''octocat'' 4 (Some ''c1'')
   = [Post \<lparr>organizationVar = ''octocat'', limitVar = 4, cursorVar = Some ''c1''\<rparr>,
      Dispatch (More (samplePage 5 ''c2'' False [2]))]"
  using onFetchRepos_success
    [of "\<lambda>_. Resolved \<lparr>data = Some (samplePage 5 ''c1'' True [1]), errors = None\<rparr>"
        "''octocat''" 4 None "samplePage 5 ''c1'' True [1]" v8]
    onFetchRepos_success
    [of "\<lambda>_. Resolved \<lparr>data = Some (samplePage 5 ''c2'' False [2]), errors = None\<rparr>"
        "''octocat''" 4 "Some ''c1''" "samplePage 5 ''c2'' False [2]" v8]
  by simp

text \<open>
  C10: a call whose cursor is the empty string and whose response is successful
  dispatches \<open>init\<close>, as a call without a cursor does: the test \<open>!cursor\<close> holds of
  the empty string. The state becomes \<open>Success\<close> with the new page alone.
\<close>

theorem onFetchRepos_empty_cursor:
  "post \<lparr>organizationVar = search, limitVar = lim, cursorVar = Some ''''\<rparr>
     = Resolved \<lparr>data = Some org, errors = None\<rparr> \<Longrightarrow>
   onFetchRepos rt post search lim (Some '''') =
     [Post \<lparr>organizationVar = search, limitVar = lim, cursorVar = Some ''''\<rparr>,
      Dispatch (Init org)]
   \<and> runEffects state (onFetchRepos rt post search lim (Some '''')) = Success org"
  by (simp add: onFetchRepos_effects tryBlock_def truthy_def runEffects_def)

theorem onFetchRepos_empty_cursor_witness:
  "runEffects (Success (samplePage 5 '''' True [1]))
     (onFetchRepos v8
        (\<lambda>_. Resolved \<lparr>data = Some (samplePage 5 ''c2'' False [2]), errors = None\<rparr>)
        ''octocat'' 4 (Some ''''))
   = Success (samplePage 5 ''c2'' False [2])"
  using onFetchRepos_empty_cursor
    [of "\<lambda>_. Resolved \<lparr>data = Some (samplePage 5 ''c2'' False [2]), errors = None\<rparr>"
        "''octocat''" 4 "samplePage 5 ''c2'' False [2]" v8 "Success (samplePage 5 '''' True [1])"]
  by (simp add: runEffects_def)

text \<open>
  C9: in a state that is not \<open>Success\<close>, \<open>onFetchMoreRepos\<close> returns at its guard: it
  has no effect at all, neither a request nor a dispatch, and the state stays as it is.
\<close>

theorem onFetchMoreRepos_not_success:
  "\<not> is_success state \<Longrightarrow>
   onFetchMoreRepos rt post state query = []
   \<and> runEffects state (onFetchMoreRepos rt post state query) = state"
  by (cases state) (simp_all add: is_success_def onFetchMoreRepos_def runEffects_def)

theorem onFetchMoreRepos_not_success_witness:
  "\<not> is_success (Error ''x'' :: nat State)
   \<and> onFetchMoreRepos v8
        (\<lambda>_. Resolved \<lparr>data = Some (samplePage 5 ''c2'' False [2]), errors = None\<rparr>)
        (Error ''x'') ''octocat'' = []
   \<and> runEffects (Error ''x'')
        (onFetchMoreRepos v8
           (\<lambda>_. Resolved \<lparr>data = Some (samplePage 5 ''c2'' False [2]), errors = None\<rparr>)
           (Error ''x'') ''octocat'') = Error ''x''"
  using onFetchMoreRepos_not_success
    [of "Error ''x''" v8
        "\<lambda>_. Resolved \<lparr>data = Some (samplePage 5 ''c2'' False [2]), errors = None\<rparr>"
        "''octocat''"]
  by (simp add: is_success_def runEffects_def)

end
